theory Spec2Isabelle
  imports Complex_Main
begin

section \<open>Exceptions\<close>

text \<open>
  A Python exception is identified by the name of its class. The exceptions that the
  modelled statements can raise are the ones numpy and the interpreter raise: none of
  them is raised by a \<^verbatim>\<open>raise\<close> statement of the widget, which has none.
\<close>

datatype error = Raise string

abbreviation ValueError :: error where
  "ValueError \<equiv> Raise ''ValueError''"

abbreviation IndexError :: error where
  "IndexError \<equiv> Raise ''IndexError''"

abbreviation AttributeError :: error where
  "AttributeError \<equiv> Raise ''AttributeError''"

section \<open>Arrays\<close>

text \<open>
  A numpy array is its shape and its elements. The elements are read through an index
  (one number per axis); only the indices inside the shape are elements of the array.
\<close>

record 'a ndarray =
  shape :: "nat list"
  elems :: "nat list \<Rightarrow> 'a"

definition inside :: "nat list \<Rightarrow> nat list \<Rightarrow> bool" where
  "inside s idx = list_all2 (<) idx s"

text \<open>
  Broadcasting of two shapes, as numpy does it: the shorter shape is padded with ones on
  the left; two extents are compatible when they are equal or one of them is 1, and
  anything else is a ValueError.
\<close>

definition pad_shape :: "nat \<Rightarrow> nat list \<Rightarrow> nat list" where
  "pad_shape n s = replicate (n - length s) 1 @ s"

definition broadcast_shapes :: "nat list \<Rightarrow> nat list \<Rightarrow> error + nat list" where
  "broadcast_shapes sa sb =
     (let n = max (length sa) (length sb);
          ds = zip (pad_shape n sa) (pad_shape n sb)
      in if list_all (\<lambda>(a, b). a = b \<or> a = 1 \<or> b = 1) ds
         then Inr (map (\<lambda>(a, b). if a = 1 then b else a) ds)
         else Inl ValueError)"

text \<open>
  Reading an array at an index of the broadcast result: the leading axes the array does
  not have are dropped, and an axis of extent 1 is read at 0.
\<close>

definition bget :: "'a ndarray \<Rightarrow> nat list \<Rightarrow> 'a" where
  "bget a idx =
     elems a (map2 (\<lambda>d i. if d = 1 then 0 else i) (shape a)
                (drop (length idx - length (shape a)) idx))"

text \<open>
  \<^verbatim>\<open>layer_data * mask\<close>: the pointwise product of the data and a boolean array
  (\<^verbatim>\<open>True\<close> counts as 1, \<^verbatim>\<open>False\<close> as 0), a new array of the broadcast shape.
\<close>

definition multiply :: "int ndarray \<Rightarrow> bool ndarray \<Rightarrow> error + int ndarray" where
  "multiply a m =
     (case broadcast_shapes (shape a) (shape m) of
        Inl e \<Rightarrow> Inl e
      | Inr s \<Rightarrow> Inr \<lparr>shape = s, elems = (\<lambda>idx. bget a idx * of_bool (bget m idx))\<rparr>)"

section \<open>Polygons and their axes\<close>

type_synonym point3 = "real \<times> real \<times> real"

type_synonym polygon = "point3 list"

fun coord :: "nat \<Rightarrow> point3 \<Rightarrow> real" where
  "coord i (x0, x1, x2) = (if i = 0 then x0 else if i = 1 then x1 else x2)"

text \<open>
  The vertices of a shape are floating-point numbers (single precision in a napari Shapes
  layer), and \<^verbatim>\<open>polygon.std(axis=0)\<close> is numpy's floating-point standard deviation
  of each column. Its rounding decides which columns count as constant: the deviation it
  computes can be zero for a column that varies a little, and not zero for a constant
  column: in single precision the sum of three times 0.9 rounds, the mean comes out one
  unit in the last place below 0.9, and the deviation of the column \<open>(0.9, 0.9, 0.9)\<close>
  is not 0 but 2 to the power -24. It is therefore a parameter of the model, \<open>std\<close>: a
  function from a column (the numbers the floats stand for) to the deviation numpy
  returns for it.
\<close>

type_synonym deviation = "real list \<Rightarrow> real"

text \<open>
  \<^verbatim>\<open>axes = np.flatnonzero(polygon.std(axis=0))\<close>: the columns whose computed standard
  deviation is not zero, in increasing order. The standard deviation of an empty column
  is nan, which is not zero.
\<close>

definition axes :: "deviation \<Rightarrow> polygon \<Rightarrow> nat list" where
  "axes std p =
     (if p = [] then [0, 1, 2]
      else filter (\<lambda>i. std (map (coord i) p) \<noteq> 0) [0, 1, 2])"

text \<open>\<^verbatim>\<open>np.take(masked_layer.data.shape, axes)\<close>\<close>

definition np_take :: "nat list \<Rightarrow> nat list \<Rightarrow> error + nat list" where
  "np_take s ax =
     (if list_all (\<lambda>a. a < length s) ax then Inr (map (\<lambda>a. s ! a) ax)
      else Inl IndexError)"

text \<open>\<^verbatim>\<open>vertices = polygon[:, axes]\<close>\<close>

definition vertices :: "polygon \<Rightarrow> nat list \<Rightarrow> real list list" where
  "vertices p ax = map (\<lambda>v. map (\<lambda>a. coord a v) ax) p"

text \<open>
  \<^verbatim>\<open>broadcast = tuple(slice(None) if i in axes else np.newaxis for i in range(3))\<close>:
  \<open>True\<close> stands for \<^verbatim>\<open>slice(None)\<close> and \<open>False\<close> for \<^verbatim>\<open>np.newaxis\<close>.
\<close>

definition broadcast :: "nat list \<Rightarrow> bool list" where
  "broadcast ax = map (\<lambda>i. i \<in> set ax) [0, 1, 2]"

text \<open>
  Indexing an array with such a tuple: a slice takes the next axis of the array (an
  IndexError when there is none left), a new axis has extent 1, and the axes the tuple
  does not reach follow unchanged. \<open>index_source\<close> is the index of the indexed array
  that an index of the result reads.
\<close>

fun index_shape :: "bool list \<Rightarrow> nat list \<Rightarrow> error + nat list" where
  "index_shape [] ds = Inr ds"
| "index_shape (False # bs) ds =
     (case index_shape bs ds of Inl e \<Rightarrow> Inl e | Inr s \<Rightarrow> Inr (1 # s))"
| "index_shape (True # bs) [] = Inl IndexError"
| "index_shape (True # bs) (d # ds) =
     (case index_shape bs ds of Inl e \<Rightarrow> Inl e | Inr s \<Rightarrow> Inr (d # s))"

fun index_source :: "bool list \<Rightarrow> nat list \<Rightarrow> nat list" where
  "index_source [] idx = idx"
| "index_source (b # bs) [] = []"
| "index_source (b # bs) (i # idx) =
     (if b then i # index_source bs idx else index_source bs idx)"

section \<open>The masking operation\<close>

text \<open>
  \<^verbatim>\<open>skimage.draw.polygon2mask(shape, vertices)\<close> is a library function: it is a
  parameter of the model. It either raises or returns a boolean array of the shape it
  was given, which is read here through its element function.
\<close>

type_synonym rasterizer = "nat list \<Rightarrow> real list list \<Rightarrow> error + (nat list \<Rightarrow> bool)"

text \<open>
  The mask of one polygon, lines 133 to 139 of \<^verbatim>\<open>_mask\<close>:
  \<^verbatim>\<open>mask = polygon2mask(shape, vertices)[broadcast]\<close>.
\<close>

definition polygon_mask ::
  "deviation \<Rightarrow> rasterizer \<Rightarrow> nat list \<Rightarrow> polygon \<Rightarrow> error + bool ndarray" where
  "polygon_mask std polygon2mask masked_shape p =
     (let ax = axes std p in
      case np_take masked_shape ax of
        Inl e \<Rightarrow> Inl e
      | Inr shp \<Rightarrow>
          (case polygon2mask shp (vertices p ax) of
             Inl e \<Rightarrow> Inl e
           | Inr f \<Rightarrow>
               (case index_shape (broadcast ax) shp of
                  Inl e \<Rightarrow> Inl e
                | Inr s \<Rightarrow>
                    Inr \<lparr>shape = s,
                         elems = (\<lambda>idx. f (index_source (broadcast ax) idx))\<rparr>)))"

text \<open>
  The loop over the polygons of the ROI layer, lines 131 to 140: every polygon's mask is
  multiplied into the working array \<^verbatim>\<open>layer_data\<close>. The shape the masks are
  rasterised for is the shape of the masked layer's data, which the loop does not change.
\<close>

fun apply_polygons ::
  "deviation \<Rightarrow> rasterizer \<Rightarrow> nat list \<Rightarrow> int ndarray \<Rightarrow> polygon list
     \<Rightarrow> error + int ndarray" where
  "apply_polygons std polygon2mask masked_shape layer_data [] = Inr layer_data"
| "apply_polygons std polygon2mask masked_shape layer_data (p # ps) =
     (case polygon_mask std polygon2mask masked_shape p of
        Inl e \<Rightarrow> Inl e
      | Inr mask3 \<Rightarrow>
          (case multiply layer_data mask3 of
             Inl e \<Rightarrow> Inl e
           | Inr layer_data' \<Rightarrow>
               apply_polygons std polygon2mask masked_shape layer_data' ps))"

section \<open>Layers and the array store\<close>

text \<open>
  Arrays are objects: a layer's \<^verbatim>\<open>data\<close> attribute is a reference to one, and two
  layers may refer to the same array. The store maps references to arrays; the
  references below \<open>lim\<close> are the allocated ones.
\<close>

type_synonym addr = nat

record heap =
  cell :: "addr \<Rightarrow> int ndarray"
  lim :: addr

definition alloc :: "int ndarray \<Rightarrow> heap \<Rightarrow> addr \<times> heap" where
  "alloc a h = (lim h, \<lparr>cell = (cell h)(lim h := a), lim = Suc (lim h)\<rparr>)"

text \<open>
  An image layer, with the attributes the masking operation reads or writes. The display
  attributes that \<^verbatim>\<open>add_image\<close> copies verbatim (opacity, blending, contrast limits,
  gamma, colormap, projection mode, depiction, rendering) are left out, and so is the
  selection of the image combo box, which the operation may move to the new layer.
\<close>

record image =
  name :: string
  data :: addr
  scale :: "real list"
  visible :: bool

text \<open>
  The body of the loop of \<^verbatim>\<open>_mask\<close> for one image layer that is a key of
  \<^verbatim>\<open>_roi_map\<close>, lines 104 to 143; \<open>roi_map_entry\<close> is \<^verbatim>\<open>self._roi_map[layer]\<close>
  and \<open>roi\<close> is \<^verbatim>\<open>roi_layer.data\<close>. The source layer is hidden; the masked layer is
  created on the source's own array when there is none yet; the working array is a copy
  of the source's data, and the result of the loop over the polygons becomes the masked
  layer's data, as a new array object.
\<close>

definition mask_layer ::
  "deviation \<Rightarrow> rasterizer \<Rightarrow> polygon list \<Rightarrow> heap \<Rightarrow> image \<Rightarrow> image option
     \<Rightarrow> error + heap \<times> image \<times> image" where
  "mask_layer std polygon2mask roi h layer roi_map_entry =
     (let layer1 = layer\<lparr>visible := False\<rparr>;
          masked_layer =
            (case roi_map_entry of
               None \<Rightarrow> \<lparr>name = name layer @ '' masked'', data = data layer,
                         scale = scale layer, visible = True\<rparr>
             | Some m \<Rightarrow> m)
      in case apply_polygons std polygon2mask (shape (cell h (data masked_layer)))
                (cell h (data layer)) roi of
           Inl e \<Rightarrow> Inl e
         | Inr layer_data \<Rightarrow>
             (case alloc layer_data h of
                (a, h') \<Rightarrow> Inr (h', layer1, masked_layer\<lparr>data := a, visible := True\<rparr>)))"

section \<open>The ray maximiser\<close>

definition vadd :: "point3 \<Rightarrow> point3 \<Rightarrow> point3" where
  "vadd u v = (case (u, v) of ((a, b, c), (x, y, z)) \<Rightarrow> (a + x, b + y, c + z))"

definition vsub :: "point3 \<Rightarrow> point3 \<Rightarrow> point3" where
  "vsub u v = (case (u, v) of ((a, b, c), (x, y, z)) \<Rightarrow> (a - x, b - y, c - z))"

definition vscale :: "real \<Rightarrow> point3 \<Rightarrow> point3" where
  "vscale k v = (case v of (x, y, z) \<Rightarrow> (k * x, k * y, k * z))"

text \<open>
  \<^verbatim>\<open>np.linspace(start, stop, num, endpoint=True)\<close> in exact arithmetic: the step is
  the difference divided by \<open>num - 1\<close>, sample \<open>i\<close> is \<open>i * step + start\<close>, and the
  last sample is then set to \<open>stop\<close>. (Where a component of the step is zero numpy
  computes \<open>i / (num - 1) * delta\<close> instead, the same number in exact arithmetic.)
\<close>

definition linspace :: "point3 \<Rightarrow> point3 \<Rightarrow> nat \<Rightarrow> point3 list" where
  "linspace start stop num =
     (let divisor = num - 1;
          delta = vsub stop start;
          y = (if 0 < divisor
               then map (\<lambda>i. vadd (vscale (real i) (vscale (1 / real divisor) delta)) start) [0..<num]
               else map (\<lambda>i. vadd (vscale (real i) delta) start) [0..<num])
      in if 1 < num then y[num - 1 := stop] else y)"

text \<open>
  \<^verbatim>\<open>intensities.argmax()\<close>: the index of the first greatest element; a ValueError on
  an empty sequence.
\<close>

fun argmax_from :: "real \<Rightarrow> nat \<Rightarrow> nat \<Rightarrow> real list \<Rightarrow> nat" where
  "argmax_from best k i [] = k"
| "argmax_from best k i (x # xs) =
     (if best < x then argmax_from x i (Suc i) xs else argmax_from best k (Suc i) xs)"

definition argmax :: "real list \<Rightarrow> error + nat" where
  "argmax xs = (case xs of [] \<Rightarrow> Inl ValueError | x # r \<Rightarrow> Inr (argmax_from x 0 1 r))"

text \<open>
  \<^verbatim>\<open>scipy.ndimage.map_coordinates(input, coordinates, mode=..., cval=...)\<close> is a library
  function: it is a parameter of the model, given the array, the boundary mode, the fill
  value and one coordinate, and returning the interpolated intensity there.
\<close>

type_synonym sampler = "int ndarray \<Rightarrow> string \<Rightarrow> real \<Rightarrow> point3 \<Rightarrow> real"

definition intensities :: "sampler \<Rightarrow> int ndarray \<Rightarrow> point3 list \<Rightarrow> real list" where
  "intensities map_coordinates image_data ray =
     map (map_coordinates image_data ''constant'' 0) ray"

text \<open>Lines 207 to 214 of \<^verbatim>\<open>_mouse_click\<close>: the sample of greatest intensity.\<close>

definition ray_argmax :: "sampler \<Rightarrow> int ndarray \<Rightarrow> point3 \<Rightarrow> point3 \<Rightarrow> error + point3" where
  "ray_argmax map_coordinates image_data near_point far_point =
     (let ray = linspace near_point far_point 100
      in case argmax (intensities map_coordinates image_data ray) of
           Inl e \<Rightarrow> Inl e
         | Inr k \<Rightarrow> if k < length ray then Inr (ray ! k) else Inl IndexError)"

record points_layer =
  mode :: string
  point_data :: "point3 list"

record event =
  handled :: bool

text \<open>
  \<^verbatim>\<open>_mouse_click\<close>. \<open>ndisplay\<close> is \<^verbatim>\<open>self._viewer.dims.ndisplay\<close>, \<open>image_layer\<close>
  the data of the layer selected in the image combo box (\<open>None\<close> when no layer is
  selected), and \<open>intersections\<close> what napari's \<^verbatim>\<open>get_ray_intersections\<close> returns for
  the event. Every \<^verbatim>\<open>return\<close> of the source returns nothing and leaves the layer and
  the event as they were.
\<close>

definition mouse_click ::
  "sampler \<Rightarrow> nat \<Rightarrow> int ndarray option \<Rightarrow> point3 option \<times> point3 option
     \<Rightarrow> points_layer \<Rightarrow> event \<Rightarrow> error + points_layer \<times> event" where
  "mouse_click map_coordinates ndisplay image_layer intersections layer ev =
     (if ndisplay = 2 then Inr (layer, ev)
      else if mode layer \<noteq> ''add'' then Inr (layer, ev)
      else
        (case image_layer of
           None \<Rightarrow> Inl AttributeError
         | Some image_data \<Rightarrow>
             (case intersections of
                (None, _) \<Rightarrow> Inr (layer, ev)
              | (Some near_point, None) \<Rightarrow> Inr (layer, ev)
              | (Some near_point, Some far_point) \<Rightarrow>
                  (case ray_argmax map_coordinates image_data near_point far_point of
                     Inl e \<Rightarrow> Inl e
                   | Inr coords \<Rightarrow>
                       Inr (layer\<lparr>point_data := point_data layer @ [coords]\<rparr>,
                            ev\<lparr>handled := True\<rparr>)))))"

section \<open>Notions the properties are stated with\<close>

text \<open>
  The footprint of a polygon in the volume: the value its mask has at a voxel, once the
  mask is broadcast against the volume.
\<close>

definition footprint ::
  "deviation \<Rightarrow> rasterizer \<Rightarrow> nat list \<Rightarrow> polygon \<Rightarrow> nat list \<Rightarrow> bool" where
  "footprint std polygon2mask masked_shape p idx =
     (case polygon_mask std polygon2mask masked_shape p of
        Inl e \<Rightarrow> False
      | Inr m \<Rightarrow> bget m idx)"

text \<open>A coordinate within the bounds \<open>[0, shape - 1]\<close> of a volume on every axis.\<close>

definition in_bounds :: "nat list \<Rightarrow> point3 \<Rightarrow> bool" where
  "in_bounds s p =
     list_all (\<lambda>i. 0 \<le> coord i p \<and> coord i p \<le> real (s ! i) - 1) [0, 1, 2]"


section \<open>Stand-ins for the library functions, for the worked examples\<close>

text \<open>
  The standard deviation in exact arithmetic. numpy's floating-point result is this number
  wherever every intermediate value (the sums, the mean, the differences, their squares
  and the root) is a floating-point number itself, as for the polygons below, whose
  columns are small integers with an integer mean and a deviation of 0 or 1.
\<close>

definition mean :: "real list \<Rightarrow> real" where
  "mean xs = sum_list xs / real (length xs)"

definition exact_std :: deviation where
  "exact_std xs = sqrt (mean (map (\<lambda>x. \<bar>x - mean xs\<bar> ^ 2) xs))"

text \<open>
  A rasterizer of the kind \<^verbatim>\<open>polygon2mask\<close> is: it takes two coordinate columns and
  a two-dimensional shape, a ValueError otherwise, and marks the pixels inside the
  polygon by the even-odd rule (a ray from the pixel crosses the outline an odd number of
  times).
\<close>

definition crosses :: "real \<times> real \<Rightarrow> (real \<times> real) \<times> (real \<times> real) \<Rightarrow> bool" where
  "crosses pt e =
     (case (pt, e) of
        ((r, c), ((rj, cj), (ri, ci))) \<Rightarrow>
          ((c < ci) \<noteq> (c < cj)) \<and> r < (rj - ri) * (c - ci) / (cj - ci) + ri)"

definition even_odd :: "(real \<times> real) list \<Rightarrow> real \<times> real \<Rightarrow> bool" where
  "even_odd vs pt =
     (vs \<noteq> [] \<and> odd (length (filter (crosses pt) (zip (last vs # butlast vs) vs))))"

definition crossing_polygon2mask :: rasterizer where
  "crossing_polygon2mask shp vs =
     (if length shp = 2 \<and> list_all (\<lambda>v. length v = 2) vs
      then Inr (\<lambda>idx. inside shp idx \<and>
                  even_odd (map (\<lambda>v. (v ! 0, v ! 1)) vs) (real (idx ! 0), real (idx ! 1)))
      else Inl ValueError)"

text \<open>
  A sampler: the voxel nearest to the coordinate, and the fill value beyond the edges.
\<close>

definition nearest_sampler :: sampler where
  "nearest_sampler a boundary cval p =
     (if in_bounds (shape a) p
      then real_of_int (elems a (map (\<lambda>i. nat \<lfloor>coord i p + 1 / 2\<rfloor>) [0, 1, 2]))
      else cval)"

text \<open>
  A volume of shape \<open>(2, 8, 8)\<close> whose voxels all hold 7; two squares in the plane
  of the axes 1 and 2 that do not overlap, and a rectangle in the plane of the axes 0
  and 2.
\<close>

definition volume7 :: "int ndarray" where
  "volume7 = \<lparr>shape = [2, 8, 8], elems = (\<lambda>idx. 7)\<rparr>"

definition square_a :: polygon where
  "square_a = [(0, 1, 1), (0, 1, 3), (0, 3, 3), (0, 3, 1)]"


definition square_c :: polygon where
  "square_c = [(0, 2, 1), (2, 2, 1), (2, 2, 3), (0, 2, 3)]"

text \<open>
  A quadrilateral that varies along all three axes, and a segment along axis 2 (drawn
  there and back).
\<close>

definition skew_quad :: polygon where
  "skew_quad = [(0, 1, 1), (2, 1, 3), (2, 3, 3), (0, 3, 1)]"

definition segment :: polygon where
  "segment = [(0, 0, 1), (0, 0, 3), (0, 0, 3), (0, 0, 1)]"

section \<open>Auxiliary notions of the proofs\<close>

text \<open>
  The values \<^verbatim>\<open>axes\<close> can take, and the mask of a polygon in a three-dimensional
  volume once the rasterizer has returned \<open>f\<close>.
\<close>

definition sublists3 :: "nat list set" where
  "sublists3 = {[], [0], [1], [2], [0, 1], [0, 2], [1, 2], [0, 1, 2]}"

definition axes_mask :: "nat list \<Rightarrow> nat list \<Rightarrow> (nat list \<Rightarrow> bool) \<Rightarrow> bool ndarray" where
  "axes_mask ms ax f =
     \<lparr>shape = map (\<lambda>i. if i \<in> set ax then ms ! i else 1) [0, 1, 2],
      elems = (\<lambda>idx. f (index_source (broadcast ax) idx))\<rparr>"


text \<open>
  A voxel of the masked layer and of the source layer after a run of the operation, or the
  error the run raised.
\<close>

definition masked_voxel :: "error + heap \<times> image \<times> image \<Rightarrow> nat list \<Rightarrow> error + int" where
  "masked_voxel r idx =
     (case r of Inl e \<Rightarrow> Inl e
      | Inr (h', layer', masked') \<Rightarrow> Inr (elems (cell h' (data masked')) idx))"

definition source_voxel :: "error + heap \<times> image \<times> image \<Rightarrow> nat list \<Rightarrow> error + int" where
  "source_voxel r idx =
     (case r of Inl e \<Rightarrow> Inl e
      | Inr (h', layer', masked') \<Rightarrow> Inr (elems (cell h' (data layer')) idx))"

text \<open>
  The masked layer the operation works on: the entry of the table, or a new layer on the
  source's array. \<open>raster_shape\<close> is \<^verbatim>\<open>masked_layer.data.shape\<close> as line 134 reads
  it, the shape the masks are rasterised for.
\<close>

definition new_masked :: "image \<Rightarrow> image option \<Rightarrow> image" where
  "new_masked layer roi_map_entry =
     (case roi_map_entry of
        None \<Rightarrow> \<lparr>name = name layer @ '' masked'', data = data layer,
                  scale = scale layer, visible = True\<rparr>
      | Some m \<Rightarrow> m)"

definition raster_shape :: "heap \<Rightarrow> image \<Rightarrow> image option \<Rightarrow> nat list" where
  "raster_shape h layer roi_map_entry = shape (cell h (data (new_masked layer roi_map_entry)))"

text \<open>
  The data of the masked layer after a run, the shape of that data and the scale of the
  layer, or the error raised.
\<close>

definition masked_array :: "error + heap \<times> image \<times> image \<Rightarrow> error + int ndarray" where
  "masked_array r =
     (case r of Inl e \<Rightarrow> Inl e
      | Inr (h', layer', masked') \<Rightarrow> Inr (cell h' (data masked')))"

definition result_shape :: "error + heap \<times> image \<times> image \<Rightarrow> error + nat list" where
  "result_shape r =
     (case r of Inl e \<Rightarrow> Inl e
      | Inr (h', layer', masked') \<Rightarrow> Inr (shape (cell h' (data masked'))))"

definition masked_scale :: "error + heap \<times> image \<times> image \<Rightarrow> error + real list" where
  "masked_scale r =
     (case r of Inl e \<Rightarrow> Inl e
      | Inr (h', layer', masked') \<Rightarrow> Inr (scale masked'))"

text \<open>
  A store holding the volume of sevens, a source layer on it, a points layer in add mode
  and an event that is not handled yet.
\<close>

definition heap0 :: heap where
  "heap0 = \<lparr>cell = (\<lambda>a. volume7), lim = 1\<rparr>"

definition layer0 :: image where
  "layer0 = \<lparr>name = ''CtBP2'', data = 0, scale = [1, 1 / 2, 1 / 2], visible = True\<rparr>"

text \<open>
  Two stores in which a second layer, named as the masked layer of the source is, was
  there before the widget, which adopts such a layer as the masked layer of the source
  (lines 80 to 85). In the first the source is the volume of sevens and the adopted
  layer's data has the shape \<open>(2, 8, 1)\<close>; in the second the source is a single
  plane of shape \<open>(1, 8, 8)\<close>, and the adopted layer has data of shape \<open>(2, 8, 8)\<close>
  and another scale than the source.
\<close>

definition thin_volume :: "int ndarray" where
  "thin_volume = \<lparr>shape = [2, 8, 1], elems = (\<lambda>idx. 7)\<rparr>"

definition heap1 :: heap where
  "heap1 = \<lparr>cell = (\<lambda>a. if a = 1 then thin_volume else volume7), lim = 2\<rparr>"

definition adopted_thin :: image where
  "adopted_thin =
     \<lparr>name = ''CtBP2 masked'', data = 1, scale = [1, 1 / 2, 1 / 2], visible = True\<rparr>"

definition flat_volume :: "int ndarray" where
  "flat_volume = \<lparr>shape = [1, 8, 8], elems = (\<lambda>idx. 7)\<rparr>"

definition heap2 :: heap where
  "heap2 = \<lparr>cell = (\<lambda>a. if a = 1 then volume7 else flat_volume), lim = 2\<rparr>"

definition adopted_unscaled :: image where
  "adopted_unscaled = \<lparr>name = ''CtBP2 masked'', data = 1, scale = [1, 1, 1], visible = True\<rparr>"

text \<open>A volume with one bright voxel, at \<open>(1, 7, 7)\<close>.\<close>

definition spot_volume :: "int ndarray" where
  "spot_volume = \<lparr>shape = [2, 8, 8], elems = (\<lambda>idx. if idx = [1, 7, 7] then 9 else 7)\<rparr>"

definition add_layer :: points_layer where
  "add_layer = \<lparr>mode = ''add'', point_data = []\<rparr>"

definition event0 :: event where
  "event0 = \<lparr>handled = False\<rparr>"

section \<open>Facts about arrays and axes\<close>

lemma clip_inside:
  "list_all2 (<) idx s \<Longrightarrow> map2 (\<lambda>d i. if d = 1 then 0 else i) s idx = (idx::nat list)"
  by (induction idx s rule: list_all2_induct) auto

lemma bget_inside: "inside (shape a) idx \<Longrightarrow> bget a idx = elems a idx"
proof -
  assume h: "inside (shape a) idx"
  then have l: "length idx = length (shape a)"
    by (simp add: inside_def list_all2_lengthD)
  from h have "map2 (\<lambda>d i. if d = 1 then 0 else i) (shape a) idx = idx"
    unfolding inside_def by (rule clip_inside)
  with l show ?thesis unfolding bget_def by simp
qed

lemma list3: "length (s::nat list) = 3 \<Longrightarrow> \<exists>a b c. s = [a, b, c]"
  by (metis (no_types, opaque_lifting) length_0_conv length_Suc_conv numeral_3_eq_3)

lemma axes_cases: "axes std p \<in> sublists3"
  by (simp add: axes_def sublists3_def)

lemma np_take_3d:
  "ax \<in> sublists3 \<Longrightarrow> length ms = 3 \<Longrightarrow> np_take ms ax = Inr (map (\<lambda>a. ms ! a) ax)"
  by (auto simp: np_take_def sublists3_def)

lemma index_shape_broadcast:
  "ax \<in> sublists3 \<Longrightarrow> length ms = 3 \<Longrightarrow>
   index_shape (broadcast ax) (map (\<lambda>a. ms ! a) ax) =
     Inr (map (\<lambda>i. if i \<in> set ax then ms ! i else 1) [0, 1, 2])"
  by (auto simp: broadcast_def sublists3_def)

lemma index_source_broadcast:
  assumes "ax \<in> sublists3" and "length idx = 3"
  shows "index_source (broadcast ax) idx = map (\<lambda>a. idx ! a) ax"
proof -
  from list3 [OF assms(2)] obtain i j k where idx: "idx = [i, j, k]" by blast
  from assms(1) show ?thesis unfolding idx
    by (auto simp: broadcast_def sublists3_def)
qed

lemma broadcast_shapes_mask:
  assumes "length ms = 3"
  shows "broadcast_shapes ms (map (\<lambda>i. if i \<in> A then ms ! i else 1) [0, 1, 2]) = Inr ms"
proof -
  from list3 [OF assms] obtain a b c where ms: "ms = [a, b, c]" by blast
  show ?thesis unfolding ms
    by (simp add: broadcast_shapes_def pad_shape_def)
qed

section \<open>Facts about the mask of one polygon and about the loop\<close>

lemma polygon_mask_3d:
  assumes "length ms = 3"
  shows "polygon_mask std r ms p =
     (case r (map (\<lambda>a. ms ! a) (axes std p)) (vertices p (axes std p)) of
        Inl e \<Rightarrow> Inl e | Inr f \<Rightarrow> Inr (axes_mask ms (axes std p) f))"
  using assms
  by (simp add: polygon_mask_def np_take_3d [OF axes_cases]
      index_shape_broadcast [OF axes_cases] axes_mask_def split: sum.splits)

lemma polygon_mask_shape:
  assumes "length ms = 3" and "polygon_mask std r ms p = Inr m"
  shows "shape m = map (\<lambda>i. if i \<in> set (axes std p) then ms ! i else 1) [0, 1, 2]"
  using assms by (auto simp: polygon_mask_3d axes_mask_def split: sum.splits)

lemma multiply_3d:
  assumes "length (shape d) = 3" and "polygon_mask std r (shape d) p = Inr m"
  shows "multiply d m =
     Inr \<lparr>shape = shape d, elems = (\<lambda>idx. bget d idx * of_bool (bget m idx))\<rparr>"
proof -
  have "broadcast_shapes (shape d) (shape m) = Inr (shape d)"
    unfolding polygon_mask_shape [OF assms] by (rule broadcast_shapes_mask [OF assms(1)])
  then show ?thesis by (simp add: multiply_def)
qed

lemma apply_polygons_fails:
  "p \<in> set ps \<Longrightarrow> polygon_mask std r ms p = Inl e \<Longrightarrow> \<exists>e'. apply_polygons std r ms d ps = Inl e'"
proof (induction ps arbitrary: d)
  case Nil
  then show ?case by simp
next
  case (Cons q ps)
  show ?case
  proof (cases "polygon_mask std r ms q")
    case (Inl a)
    then show ?thesis by simp
  next
    case (Inr m)
    with Cons.prems have in_ps: "p \<in> set ps" by auto
    show ?thesis
    proof (cases "multiply d m")
      case (Inl a)
      with Inr show ?thesis by simp
    next
      case (Inr d')
      from Cons.IH [OF in_ps Cons.prems(2), of d'] \<open>polygon_mask std r ms q = Inr m\<close> Inr
      show ?thesis by simp
    qed
  qed
qed

lemma apply_polygons_3d:
  assumes "length ms = 3"
  shows "shape d = ms \<Longrightarrow> \<forall>p\<in>set ps. \<exists>m. polygon_mask std r ms p = Inr m \<Longrightarrow>
    \<exists>res. apply_polygons std r ms d ps = Inr res \<and> shape res = ms \<and>
      (\<forall>idx. inside ms idx \<longrightarrow>
         elems res idx = elems d idx * prod_list (map (\<lambda>p. of_bool (footprint std r ms p idx)) ps))"
proof (induction ps arbitrary: d)
  case Nil
  then show ?case by simp
next
  case (Cons q ps)
  from Cons.prems(2) obtain m where m: "polygon_mask std r ms q = Inr m" by auto
  define d' where "d' = \<lparr>shape = shape d, elems = (\<lambda>idx. bget d idx * of_bool (bget m idx))\<rparr>"
  have mul: "multiply d m = Inr d'"
    unfolding d'_def using assms Cons.prems(1) m by (intro multiply_3d) auto
  have sh: "shape d' = ms" by (simp add: d'_def Cons.prems(1))
  from Cons.prems(2) have rest: "\<forall>p\<in>set ps. \<exists>m. polygon_mask std r ms p = Inr m" by simp
  from Cons.IH [OF sh rest] obtain res where
    res: "apply_polygons std r ms d' ps = Inr res" "shape res = ms"
      "\<forall>idx. inside ms idx \<longrightarrow>
         elems res idx = elems d' idx * prod_list (map (\<lambda>p. of_bool (footprint std r ms p idx)) ps)"
    by blast
  have step: "elems d' idx = elems d idx * of_bool (footprint std r ms q idx)" if "inside ms idx" for idx
    using that by (simp add: d'_def footprint_def m bget_inside Cons.prems(1))
  have "apply_polygons std r ms d (q # ps) = Inr res"
    by (simp add: m mul res(1))
  moreover have "\<forall>idx. inside ms idx \<longrightarrow>
         elems res idx = elems d idx * prod_list (map (\<lambda>p. of_bool (footprint std r ms p idx)) (q # ps))"
    using res(3) step by (simp add: mult.assoc)
  ultimately show ?case using res(2) by blast
qed

lemma clip3:
  assumes "i < a" "j < b" "k < c"
  shows "map2 (\<lambda>d i. if d = 1 then 0 else i)
           [if x then a else 1, if y then b else 1, if z then c else 1] [i, j, k :: nat] =
         [if x then i else 0, if y then j else 0, if z then k else 0]"
  using assms by auto

lemma bget_mask3:
  assumes l: "length ms = 3" and ins: "inside ms idx"
  shows "bget (axes_mask ms (axes std p) f) idx = f (map (\<lambda>a. idx ! a) (axes std p))"
proof -
  from list3 [OF l] obtain a b c where ms: "ms = [a, b, c]" by blast
  from ins have "length idx = 3" by (simp add: inside_def ms list_all2_lengthD)
  from list3 [OF this] obtain i j k where idx: "idx = [i, j, k]" by blast
  from ins have lt: "i < a" "j < b" "k < c" by (simp_all add: inside_def idx ms)
  have sh: "shape (axes_mask ms (axes std p) f) =
      [if 0 \<in> set (axes std p) then a else 1, if 1 \<in> set (axes std p) then b else 1,
       if 2 \<in> set (axes std p) then c else 1]"
    by (simp add: axes_mask_def ms)
  have "bget (axes_mask ms (axes std p) f) idx =
      f (index_source (broadcast (axes std p))
          [if 0 \<in> set (axes std p) then i else 0, if 1 \<in> set (axes std p) then j else 0,
           if 2 \<in> set (axes std p) then k else 0])"
    unfolding bget_def sh idx using clip3 [OF lt] by (simp add: axes_mask_def)
  also have "index_source (broadcast (axes std p))
          [if 0 \<in> set (axes std p) then i else 0, if 1 \<in> set (axes std p) then j else 0,
           if 2 \<in> set (axes std p) then k else 0] = map (\<lambda>a. idx ! a) (axes std p)"
    using axes_cases [of std p] unfolding idx sublists3_def
    by (auto simp: broadcast_def)
  finally show ?thesis .
qed

lemma footprint_3d:
  assumes "length ms = 3" and "inside ms idx"
  shows "footprint std r ms p idx =
     (case r (map (\<lambda>a. ms ! a) (axes std p)) (vertices p (axes std p)) of
        Inl e \<Rightarrow> False | Inr f \<Rightarrow> f (map (\<lambda>a. idx ! a) (axes std p)))"
  by (simp add: footprint_def polygon_mask_3d [OF assms(1)] bget_mask3 [OF assms]
      split: sum.splits)

lemma inside_update:
  "inside ms idx \<Longrightarrow> a < ms ! k \<Longrightarrow> inside ms (idx[k := a])"
  unfolding inside_def
  by (metis list_update_id list_all2_update_cong)

section \<open>The worked examples, evaluated\<close>

lemma std_zero_iff: "exact_std xs = 0 \<longleftrightarrow> mean (map (\<lambda>x. \<bar>x - mean xs\<bar> ^ 2) xs) = 0"
  by (simp add: exact_std_def)

lemma axes_square_a: "axes exact_std square_a = [1, 2]"
  by (simp add: axes_def square_a_def std_zero_iff mean_def power2_eq_square)


lemma axes_square_c: "axes exact_std square_c = [0, 2]"
  by (simp add: axes_def square_c_def std_zero_iff mean_def power2_eq_square)

lemma axes_skew_quad: "axes exact_std skew_quad = [0, 1, 2]"
  by (simp add: axes_def skew_quad_def std_zero_iff mean_def power2_eq_square)

lemma axes_segment: "axes exact_std segment = [2]"
  by (simp add: axes_def segment_def std_zero_iff mean_def power2_eq_square)

lemma shape_volume7: "shape volume7 = [2, 8, 8]" and length_shape_volume7: "length (shape volume7) = 3"
  by (simp_all add: volume7_def)

lemma polygon_mask_eval:
  "length ms = 3 \<Longrightarrow> axes std p = ax \<Longrightarrow>
   polygon_mask std r ms p =
     (case r (map (\<lambda>a. ms ! a) ax) (vertices p ax) of
        Inl e \<Rightarrow> Inl e | Inr f \<Rightarrow> Inr (axes_mask ms ax f))"
  by (auto simp: polygon_mask_3d)

lemma footprint_eval:
  "length ms = 3 \<Longrightarrow> inside ms idx \<Longrightarrow> axes std p = ax \<Longrightarrow>
   footprint std r ms p idx =
     (case r (map (\<lambda>a. ms ! a) ax) (vertices p ax) of
        Inl e \<Rightarrow> False | Inr f \<Rightarrow> f (map (\<lambda>a. idx ! a) ax))"
  by (auto simp: footprint_3d)

lemma polygon_mask_square_a: "\<exists>m. polygon_mask exact_std crossing_polygon2mask [2, 8, 8] square_a = Inr m"
  by (subst polygon_mask_eval [OF _ axes_square_a])
    (simp_all add: vertices_def square_a_def crossing_polygon2mask_def)


lemma polygon_mask_square_c: "\<exists>m. polygon_mask exact_std crossing_polygon2mask [2, 8, 8] square_c = Inr m"
  by (subst polygon_mask_eval [OF _ axes_square_c])
    (simp_all add: vertices_def square_c_def crossing_polygon2mask_def)

lemma footprint_square_a_0: "footprint exact_std crossing_polygon2mask [2, 8, 8] square_a [0, 2, 2]"
  by (subst footprint_eval [OF _ _ axes_square_a])
    (simp_all add: inside_def vertices_def square_a_def crossing_polygon2mask_def
      even_odd_def crosses_def)

lemma footprint_square_a_1: "footprint exact_std crossing_polygon2mask [2, 8, 8] square_a [1, 2, 2]"
  by (subst footprint_eval [OF _ _ axes_square_a])
    (simp_all add: inside_def vertices_def square_a_def crossing_polygon2mask_def
      even_odd_def crosses_def)

lemma footprint_square_a_out: "\<not> footprint exact_std crossing_polygon2mask [2, 8, 8] square_a [1, 5, 2]"
  by (subst footprint_eval [OF _ _ axes_square_a])
    (simp_all add: inside_def vertices_def square_a_def crossing_polygon2mask_def
      even_odd_def crosses_def)


lemma footprint_square_c_1: "footprint exact_std crossing_polygon2mask [2, 8, 8] square_c [1, 2, 2]"
  by (subst footprint_eval [OF _ _ axes_square_c])
    (simp_all add: inside_def vertices_def square_c_def crossing_polygon2mask_def
      even_odd_def crosses_def)

lemma footprint_square_c_2: "footprint exact_std crossing_polygon2mask [2, 8, 8] square_c [1, 5, 2]"
  by (subst footprint_eval [OF _ _ axes_square_c])
    (simp_all add: inside_def vertices_def square_c_def crossing_polygon2mask_def
      even_odd_def crosses_def)


section \<open>Facts about the layers\<close>

lemma apply_polygons_ok:
  assumes "apply_polygons std r ms d ps = Inr res"
  shows "\<forall>p\<in>set ps. \<exists>m. polygon_mask std r ms p = Inr m"
proof
  fix p
  assume p: "p \<in> set ps"
  show "\<exists>m. polygon_mask std r ms p = Inr m"
  proof (cases "polygon_mask std r ms p")
    case (Inl e)
    from apply_polygons_fails [OF p Inl, of d] assms show ?thesis by simp
  next
    case (Inr m)
    then show ?thesis by blast
  qed
qed

lemma mask_layer_result:
  assumes "apply_polygons std r (raster_shape h layer entry) (cell h (data layer)) roi = Inr res"
  shows "mask_layer std r roi h layer entry =
     Inr (\<lparr>cell = (cell h)(lim h := res), lim = Suc (lim h)\<rparr>,
          layer\<lparr>visible := False\<rparr>,
          (new_masked layer entry)\<lparr>data := lim h, visible := True\<rparr>)"
  using assms
  by (simp add: mask_layer_def raster_shape_def new_masked_def alloc_def)

lemma mask_layer_error:
  assumes "apply_polygons std r (raster_shape h layer entry) (cell h (data layer)) roi = Inl e"
  shows "mask_layer std r roi h layer entry = Inl e"
  using assms
  by (simp add: mask_layer_def raster_shape_def new_masked_def)

lemma masked_array_eq:
  "masked_array (mask_layer std r roi h layer entry) =
   apply_polygons std r (raster_shape h layer entry) (cell h (data layer)) roi"
proof (cases "apply_polygons std r (raster_shape h layer entry) (cell h (data layer)) roi")
  case (Inl e)
  then show ?thesis by (simp add: mask_layer_error masked_array_def)
next
  case (Inr res)
  then show ?thesis by (simp add: mask_layer_result masked_array_def)
qed

lemma mask_layer_returns:
  assumes "mask_layer std r roi h layer entry = Inr (h', layer', masked')"
  shows "\<exists>res. apply_polygons std r (raster_shape h layer entry) (cell h (data layer)) roi = Inr res \<and>
     h' = \<lparr>cell = (cell h)(lim h := res), lim = Suc (lim h)\<rparr> \<and>
     layer' = layer\<lparr>visible := False\<rparr> \<and>
     masked' = (new_masked layer entry)\<lparr>data := lim h, visible := True\<rparr>"
proof (cases "apply_polygons std r (raster_shape h layer entry) (cell h (data layer)) roi")
  case (Inl e)
  from mask_layer_error [OF Inl] assms show ?thesis by simp
next
  case (Inr res)
  from mask_layer_result [OF Inr] assms show ?thesis using Inr by simp
qed

lemma scale_new_masked:
  "scale (new_masked layer entry) = (case entry of None \<Rightarrow> scale layer | Some m \<Rightarrow> scale m)"
  by (simp add: new_masked_def split: option.splits)

lemma raster_shape_None: "raster_shape h layer None = shape (cell h (data layer))"
  by (simp add: raster_shape_def new_masked_def)

lemma heap0_source:
  "cell heap0 (data layer0) = volume7" "shape (cell heap0 (data layer0)) = [2, 8, 8]"
  "length (shape (cell heap0 (data layer0))) = 3" "data layer0 < lim heap0"
  by (simp_all add: heap0_def layer0_def volume7_def)

lemma example_roi_ok:
  "\<forall>p\<in>set [square_a, square_c]. \<exists>m. polygon_mask exact_std crossing_polygon2mask [2, 8, 8] p = Inr m"
  using polygon_mask_square_a polygon_mask_square_c by simp

lemma example_result:
  "\<exists>res. apply_polygons exact_std crossing_polygon2mask [2, 8, 8] volume7 [square_a, square_c] = Inr res \<and>
     elems res [1, 2, 2] = 7 \<and> elems res [1, 5, 2] = 0"
proof -
  have l: "length [2, 8, 8::nat] = 3" by simp
  from apply_polygons_3d [OF l shape_volume7 example_roi_ok] obtain res where
    res: "apply_polygons exact_std crossing_polygon2mask [2, 8, 8] volume7 [square_a, square_c] = Inr res"
    and vox: "\<And>idx. inside [2, 8, 8] idx \<Longrightarrow>
         elems res idx =
           elems volume7 idx *
           prod_list (map (\<lambda>x. of_bool (footprint exact_std crossing_polygon2mask [2, 8, 8] x idx))
             [square_a, square_c])"
    by blast
  have "elems res [1, 2, 2] = 7"
    using vox [of "[1, 2, 2]"] footprint_square_a_1 footprint_square_c_1
    by (simp add: inside_def) (simp add: volume7_def)
  moreover have "elems res [1, 5, 2] = 0"
    using vox [of "[1, 5, 2]"] footprint_square_a_out by (simp add: inside_def)
  ultimately show ?thesis using res by blast
qed

lemma crossing_rejects_columns:
  "vs \<noteq> [] \<Longrightarrow> \<forall>v\<in>set vs. length v \<noteq> 2 \<Longrightarrow> crossing_polygon2mask shp vs = Inl ValueError"
  by (cases vs) (simp_all add: crossing_polygon2mask_def)

lemma vertices_columns:
  "p \<noteq> [] \<Longrightarrow> vertices p ax \<noteq> [] \<and> (\<forall>v\<in>set (vertices p ax). length v = length ax)"
  by (simp add: vertices_def)

lemma square_a_ok: "\<forall>p\<in>set [square_a]. \<exists>m. polygon_mask exact_std crossing_polygon2mask [2, 8, 8] p = Inr m"
  using polygon_mask_square_a by simp

lemma fresh_square_a:
  "\<exists>res. apply_polygons exact_std crossing_polygon2mask [2, 8, 8] volume7 [square_a] = Inr res \<and>
     elems res [1, 2, 2] = 7"
proof -
  have l: "length [2, 8, 8::nat] = 3" by simp
  from apply_polygons_3d [OF l shape_volume7 square_a_ok] obtain res where
    res: "apply_polygons exact_std crossing_polygon2mask [2, 8, 8] volume7 [square_a] = Inr res"
    and vox: "\<And>idx. inside [2, 8, 8] idx \<Longrightarrow>
         elems res idx =
           elems volume7 idx *
           prod_list (map (\<lambda>x. of_bool (footprint exact_std crossing_polygon2mask [2, 8, 8] x idx))
             [square_a])"
    by blast
  have "elems res [1, 2, 2] = 7"
    using vox [of "[1, 2, 2]"] footprint_square_a_1
    by (simp add: inside_def) (simp add: volume7_def)
  with res show ?thesis by blast
qed

lemma thin_mask_square_a:
  "polygon_mask exact_std crossing_polygon2mask [2, 8, 1] square_a =
     Inr (axes_mask [2, 8, 1] [1, 2]
       (\<lambda>idx. inside [8, 1] idx \<and>
          even_odd [(1, 1), (1, 3), (3, 3), (3, 1)] (real (idx ! 0), real (idx ! 1))))"
  by (subst polygon_mask_eval [OF _ axes_square_a])
    (simp_all add: vertices_def square_a_def crossing_polygon2mask_def)

lemma thin_square_a:
  "\<exists>res. apply_polygons exact_std crossing_polygon2mask [2, 8, 1] volume7 [square_a] = Inr res \<and>
     elems res [1, 2, 2] = 0"
proof -
  let ?m = "axes_mask [2, 8, 1] [1, 2]
       (\<lambda>idx. inside [8, 1] idx \<and>
          even_odd [(1, 1), (1, 3), (3, 3), (3, 1)] (real (idx ! 0), real (idx ! 1)))"
  have sh: "shape ?m = [1, 8, 1]" by (simp add: axes_mask_def)
  have bs: "broadcast_shapes (shape volume7) (shape ?m) = Inr [2, 8, 8]"
    unfolding sh shape_volume7 by (simp add: broadcast_shapes_def pad_shape_def)
  have off: "\<not> bget ?m [1, 2, 2]"
    unfolding bget_def sh
    by (simp add: axes_mask_def broadcast_def inside_def even_odd_def crosses_def)
  have "multiply volume7 ?m =
      Inr \<lparr>shape = [2, 8, 8], elems = (\<lambda>idx. bget volume7 idx * of_bool (bget ?m idx))\<rparr>"
    unfolding multiply_def bs by simp
  then have "apply_polygons exact_std crossing_polygon2mask [2, 8, 1] volume7 [square_a] =
      Inr \<lparr>shape = [2, 8, 8], elems = (\<lambda>idx. bget volume7 idx * of_bool (bget ?m idx))\<rparr>"
    unfolding apply_polygons.simps thin_mask_square_a by (simp only: sum.case)
  moreover have "elems \<lparr>shape = [2, 8, 8],
      elems = (\<lambda>idx. bget volume7 idx * of_bool (bget ?m idx))\<rparr> [1, 2, 2] = 0"
    using off by simp
  ultimately show ?thesis by blast
qed

lemma adopted_mask_square_c:
  "polygon_mask exact_std crossing_polygon2mask [2, 8, 8] square_c =
     Inr (axes_mask [2, 8, 8] [0, 2]
       (\<lambda>idx. inside [2, 8] idx \<and>
          even_odd [(0, 1), (2, 1), (2, 3), (0, 3)] (real (idx ! 0), real (idx ! 1))))"
  by (subst polygon_mask_eval [OF _ axes_square_c])
    (simp_all add: vertices_def square_c_def crossing_polygon2mask_def)

lemma adopted_square_c:
  "\<exists>res. apply_polygons exact_std crossing_polygon2mask [2, 8, 8] flat_volume [square_c] =
      Inr res \<and> shape res = [2, 8, 8]"
proof -
  let ?m = "axes_mask [2, 8, 8] [0, 2]
       (\<lambda>idx. inside [2, 8] idx \<and>
          even_odd [(0, 1), (2, 1), (2, 3), (0, 3)] (real (idx ! 0), real (idx ! 1)))"
  have sh: "shape ?m = [2, 1, 8]" by (simp add: axes_mask_def)
  have fl: "shape flat_volume = [1, 8, 8]" by (simp add: flat_volume_def)
  have bs: "broadcast_shapes (shape flat_volume) (shape ?m) = Inr [2, 8, 8]"
    unfolding sh fl by (simp add: broadcast_shapes_def pad_shape_def)
  have "multiply flat_volume ?m =
      Inr \<lparr>shape = [2, 8, 8], elems = (\<lambda>idx. bget flat_volume idx * of_bool (bget ?m idx))\<rparr>"
    unfolding multiply_def bs by simp
  then have "apply_polygons exact_std crossing_polygon2mask [2, 8, 8] flat_volume [square_c] =
      Inr \<lparr>shape = [2, 8, 8], elems = (\<lambda>idx. bget flat_volume idx * of_bool (bget ?m idx))\<rparr>"
    unfolding apply_polygons.simps adopted_mask_square_c by (simp only: sum.case)
  then show ?thesis by simp
qed

section \<open>Facts about the ray maximiser\<close>

lemma length_linspace: "length (linspace start stop num) = num"
  by (simp add: linspace_def Let_def)

lemma vector_step:
  "vadd (vscale (real i) (vscale (1 / 99) (vsub stop start))) start =
   vadd start (vscale (real i / 99) (vsub stop start))"
  by (cases start; cases stop) (simp add: vadd_def vsub_def vscale_def)

lemma vector_last: "vadd start (vscale (real 99 / 99) (vsub stop start)) = stop"
  by (cases start; cases stop) (simp add: vadd_def vsub_def vscale_def)

lemma linspace_nth:
  assumes "i < 100"
  shows "linspace start stop 100 ! i = vadd start (vscale (real i / 99) (vsub stop start))"
proof (cases "i = 99")
  case True
  then show ?thesis
    using vector_last [of start stop] by (simp add: linspace_def)
next
  case False
  with assms show ?thesis
    by (simp add: linspace_def vector_step del: upt_Suc)
qed



lemma argmax_from_first_maximum:
  "ys = pre @ xs \<Longrightarrow> length pre = i \<Longrightarrow> k < i \<Longrightarrow> best = ys ! k \<Longrightarrow>
   \<forall>j<i. ys ! j \<le> best \<Longrightarrow> \<forall>j<k. ys ! j < best \<Longrightarrow>
   argmax_from best k i xs < length ys \<and>
   (\<forall>j<length ys. ys ! j \<le> ys ! argmax_from best k i xs) \<and>
   (\<forall>j<argmax_from best k i xs. ys ! j < ys ! argmax_from best k i xs)"
proof (induction xs arbitrary: pre i k best)
  case Nil
  then show ?case by simp
next
  case (Cons x xs)
  have ys: "ys = (pre @ [x]) @ xs" using Cons.prems(1) by simp
  have len: "length (pre @ [x]) = Suc i" using Cons.prems(2) by simp
  have x: "ys ! i = x" using Cons.prems(1,2) by (metis nth_append_length)
  show ?case
  proof (cases "best < x")
    case True
    have a: "\<forall>j<Suc i. ys ! j \<le> x"
      using Cons.prems(5) True x by (auto simp: less_Suc_eq)
    have b: "\<forall>j<i. ys ! j < x"
      using Cons.prems(5) True by (meson le_less_trans)
    from Cons.IH [OF ys len lessI x [symmetric] a b] True show ?thesis by simp
  next
    case False
    have a: "\<forall>j<Suc i. ys ! j \<le> best"
      using Cons.prems(5) False x by (auto simp: less_Suc_eq)
    have k: "k < Suc i" using Cons.prems(3) by simp
    from Cons.IH [OF ys len k Cons.prems(4) a Cons.prems(6)] False show ?thesis by simp
  qed
qed

lemma argmax_first_maximum:
  assumes "xs \<noteq> []"
  shows "\<exists>k<length xs. argmax xs = Inr k \<and> (\<forall>j<length xs. xs ! j \<le> xs ! k) \<and>
     (\<forall>j<k. xs ! j < xs ! k)"
proof -
  from assms obtain x r where xs: "xs = x # r" by (cases xs) auto
  have 1: "xs = [x] @ r" by (simp add: xs)
  have 2: "length [x] = Suc 0" by simp
  have 3: "x = xs ! 0" by (simp add: xs)
  have 4: "\<forall>j<Suc 0. xs ! j \<le> x" by (simp add: xs)
  have 5: "\<forall>j<0. xs ! j < x" by simp
  have 6: "argmax xs = Inr (argmax_from x 0 (Suc 0) r)" by (simp add: xs argmax_def)
  have 7: "0 < Suc 0" by simp
  from argmax_from_first_maximum [OF 1 2 7 3 4 5]
  show ?thesis unfolding 6 by blast
qed

lemma ray_argmax_result:
  "\<exists>k<100. ray_argmax mc d near far = Inr (linspace near far 100 ! k) \<and>
     (\<forall>j<100. intensities mc d (linspace near far 100) ! j
        \<le> intensities mc d (linspace near far 100) ! k) \<and>
     (\<forall>j<k. intensities mc d (linspace near far 100) ! j
        < intensities mc d (linspace near far 100) ! k)"
proof -
  have len: "length (intensities mc d (linspace near far 100)) = 100"
    by (simp add: intensities_def length_linspace)
  then have "intensities mc d (linspace near far 100) \<noteq> []" by auto
  from argmax_first_maximum [OF this] show ?thesis
    unfolding len by (auto simp: ray_argmax_def length_linspace)
qed


lemma intensities_nth:
  "i < 100 \<Longrightarrow> intensities mc d (linspace near far 100) ! i =
     mc d ''constant'' 0 (linspace near far 100 ! i)"
  by (simp add: intensities_def length_linspace)

lemma spot_sample:
  assumes "k < 100"
  shows "nearest_sampler spot_volume ''constant'' 0 (linspace (0, 0, 0) (1, 7, 7) 100 ! k) =
     (if 92 \<le> k then 9 else 7)"
proof -
  have p: "linspace (0, 0, 0) (1, 7, 7) 100 ! k = (real k / 99, 7 * real k / 99, 7 * real k / 99)"
    by (simp add: linspace_nth [OF assms] vadd_def vsub_def vscale_def)
  have b: "in_bounds (shape spot_volume) (real k / 99, 7 * real k / 99, 7 * real k / 99)"
    using assms by (simp add: in_bounds_def spot_volume_def)
  have f0: "\<lfloor>real k / 99 + 1 / 2\<rfloor> = (if 50 \<le> k then 1 else 0)"
    using assms by (auto simp: floor_eq_iff)
  have "7 \<le> real k * 7 / 99 + 1 / 2 \<longleftrightarrow> 92 \<le> k"
    by (simp add: field_simps) linarith
  then have f7: "\<lfloor>7 * real k / 99 + 1 / 2\<rfloor> = 7 \<longleftrightarrow> 92 \<le> k"
    using assms by (auto simp: floor_eq_iff mult.commute)
  have "elems spot_volume
      (map (\<lambda>i. nat \<lfloor>coord i (real k / 99, 7 * real k / 99, 7 * real k / 99) + 1 / 2\<rfloor>)
         [0, 1, 2]) = (if 92 \<le> k then 9 else 7)"
    using f0 f7 by (auto simp: spot_volume_def)
  with b show ?thesis unfolding p by (simp add: nearest_sampler_def)
qed

section \<open>Properties of the masking operation\<close>

text \<open>
  C10. Masking with a region of zero polygons is the identity: the loop returns the
  working copy as it is, and the masked layer's data is an array equal to the source's
  data, not a zeroed volume.
\<close>

theorem empty_region_identity:
  "apply_polygons std polygon2mask masked_shape layer_data [] = Inr layer_data \<and>
   (\<exists>h' layer' masked'.
      mask_layer std polygon2mask [] h layer roi_map_entry = Inr (h', layer', masked') \<and>
      cell h' (data masked') = cell h (data layer))"
  by (simp add: mask_layer_def alloc_def Let_def)




text \<open>
  C2, as the code has it. The masking operation has no check of the number of axes and
  raises no error of its own: it hands the shape entries and the vertex columns of all the
  columns whose computed standard deviation is not zero to the rasterizer. With a
  rasterizer that raises \<open>e\<close> for vertices that do not have two coordinate columns, as
  \<^verbatim>\<open>polygon2mask\<close> raises a ValueError, the mask of a polygon for which the number of
  such columns is not two is that error, and the loop over a region that contains the
  polygon raises: no mask is computed from a choice of plane.
\<close>

theorem rasterizer_error_propagates:
  assumes "\<And>shp vs. vs \<noteq> [] \<Longrightarrow> \<forall>v\<in>set vs. length v \<noteq> 2 \<Longrightarrow> polygon2mask shp vs = Inl e"
    and "length masked_shape = 3" and "p \<in> set roi" and "p \<noteq> []"
    and "length (axes std p) \<noteq> 2"
  shows "polygon_mask std polygon2mask masked_shape p = Inl e \<and>
     (\<exists>e'. apply_polygons std polygon2mask masked_shape layer_data roi = Inl e')"
proof -
  from vertices_columns [OF assms(4), of "axes std p"] assms(5)
  have "vertices p (axes std p) \<noteq> []" "\<forall>v\<in>set (vertices p (axes std p)). length v \<noteq> 2"
    by simp_all
  then have "polygon2mask (map (\<lambda>a. masked_shape ! a) (axes std p)) (vertices p (axes std p)) = Inl e"
    by (rule assms(1))
  then have pm: "polygon_mask std polygon2mask masked_shape p = Inl e"
    by (simp add: polygon_mask_3d [OF assms(2)])
  from apply_polygons_fails [OF assms(3) pm] pm show ?thesis by blast
qed

text \<open>
  The theorem at a quadrilateral whose deviation is 1 along all three axes and at a
  segment whose deviation is 1 along one axis and 0 along the others.
\<close>

theorem rasterizer_error_propagates_witness:
  "length (axes exact_std skew_quad) = 3 \<and> length (axes exact_std segment) = 1 \<and>
   polygon_mask exact_std crossing_polygon2mask [2, 8, 8] skew_quad = Inl ValueError \<and>
   polygon_mask exact_std crossing_polygon2mask [2, 8, 8] segment = Inl ValueError \<and>
   (\<exists>e'. apply_polygons exact_std crossing_polygon2mask [2, 8, 8] volume7 [square_a, skew_quad] =
      Inl e')"
proof -
  have l: "length [2, 8, 8::nat] = 3" by simp
  have q: "skew_quad \<in> set [square_a, skew_quad]" "skew_quad \<noteq> []"
    "length (axes exact_std skew_quad) \<noteq> 2"
    by (simp_all add: axes_skew_quad) (simp add: skew_quad_def)
  from rasterizer_error_propagates [of crossing_polygon2mask ValueError,
      OF crossing_rejects_columns l q, of volume7]
  have a: "polygon_mask exact_std crossing_polygon2mask [2, 8, 8] skew_quad = Inl ValueError \<and>
     (\<exists>e'. apply_polygons exact_std crossing_polygon2mask [2, 8, 8] volume7 [square_a, skew_quad] =
        Inl e')" .
  have s: "segment \<in> set [segment]" "segment \<noteq> []" "length (axes exact_std segment) \<noteq> 2"
    by (simp_all add: axes_segment) (simp add: segment_def)
  from rasterizer_error_propagates [of crossing_polygon2mask ValueError,
      OF crossing_rejects_columns l s, of volume7]
  have b: "polygon_mask exact_std crossing_polygon2mask [2, 8, 8] segment = Inl ValueError"
    by simp
  from a b show ?thesis by (simp add: axes_skew_quad axes_segment)
qed

text \<open>
  C2 as stated fails: for the quadrilateral varying along all three axes the error raised
  is the rasterizer's ValueError, not an error named InvalidPolygonAxes.
\<close>

theorem invalid_polygon_axes_counterexample:
  "length (axes exact_std skew_quad) = 3 \<and>
   apply_polygons exact_std crossing_polygon2mask (shape volume7) volume7 [skew_quad] =
     Inl (Raise ''ValueError'') \<and>
   apply_polygons exact_std crossing_polygon2mask (shape volume7) volume7 [skew_quad] \<noteq>
     Inl (Raise ''InvalidPolygonAxes'')"
proof -
  have "polygon_mask exact_std crossing_polygon2mask [2, 8, 8] skew_quad = Inl ValueError"
    by (subst polygon_mask_eval [OF _ axes_skew_quad])
      (simp_all add: crossing_polygon2mask_def)
  then show ?thesis by (simp add: shape_volume7 axes_skew_quad)
qed

text \<open>
  C9, as the code has it. Every run of the masking operation that returns leaves every
  array of the store as it was, the source's among them, and keeps the source layer on its
  array; the masked layer's data is a new array object. The masked layer has the source's
  scale when the run creates it; a masked layer that was there already keeps the scale it
  had. When moreover the source is three-dimensional, its polygons all rasterise, and the
  table holds no masked layer for the source or one whose data has the source's shape,
  the run returns, the new array has the shape of the source, and every voxel is the
  source's multiplied by the masks of all the polygons.
\<close>

theorem mask_layer_frame:
  "(\<forall>h' layer' masked'.
      mask_layer std r roi h layer entry = Inr (h', layer', masked') \<longrightarrow>
        (\<forall>a<lim h. cell h' a = cell h a) \<and> data layer' = data layer \<and>
        data masked' = lim h \<and>
        (data layer < lim h \<longrightarrow>
           cell h' (data layer) = cell h (data layer) \<and> data masked' \<noteq> data layer) \<and>
        scale masked' = (case entry of None \<Rightarrow> scale layer | Some m \<Rightarrow> scale m)) \<and>
   (length (shape (cell h (data layer))) = 3 \<and>
    raster_shape h layer entry = shape (cell h (data layer)) \<and>
    (\<forall>p\<in>set roi. \<exists>m. polygon_mask std r (shape (cell h (data layer))) p = Inr m) \<longrightarrow>
      (\<exists>h' layer' masked'.
         mask_layer std r roi h layer entry = Inr (h', layer', masked') \<and>
         shape (cell h' (data masked')) = shape (cell h (data layer)) \<and>
         (\<forall>idx. inside (shape (cell h (data layer))) idx \<longrightarrow>
            elems (cell h' (data masked')) idx =
              elems (cell h (data layer)) idx *
              prod_list
                (map (\<lambda>p. of_bool (footprint std r (shape (cell h (data layer))) p idx)) roi))))"
proof (intro conjI allI impI)
  fix h' layer' masked'
  assume run: "mask_layer std r roi h layer entry = Inr (h', layer', masked')"
  from mask_layer_returns [OF run] obtain res where
    eq: "h' = \<lparr>cell = (cell h)(lim h := res), lim = Suc (lim h)\<rparr>"
      "layer' = layer\<lparr>visible := False\<rparr>"
      "masked' = (new_masked layer entry)\<lparr>data := lim h, visible := True\<rparr>"
    by blast
  show "data layer' = data layer" "data masked' = lim h"
    "scale masked' = (case entry of None \<Rightarrow> scale layer | Some m \<Rightarrow> scale m)"
    by (simp_all add: eq scale_new_masked)
  { fix a assume "a < lim h" then show "cell h' a = cell h a" by (simp add: eq) }
  { assume "data layer < lim h"
    then show "cell h' (data layer) = cell h (data layer)" "data masked' \<noteq> data layer"
      by (simp_all add: eq) }
next
  assume hyp: "length (shape (cell h (data layer))) = 3 \<and>
    raster_shape h layer entry = shape (cell h (data layer)) \<and>
    (\<forall>p\<in>set roi. \<exists>m. polygon_mask std r (shape (cell h (data layer))) p = Inr m)"
  then have l: "length (shape (cell h (data layer))) = 3"
    and rs: "raster_shape h layer entry = shape (cell h (data layer))"
    and ok: "\<forall>p\<in>set roi. \<exists>m. polygon_mask std r (shape (cell h (data layer))) p = Inr m"
    by blast+
  from apply_polygons_3d [OF l refl ok] obtain res where
    res: "apply_polygons std r (shape (cell h (data layer))) (cell h (data layer)) roi = Inr res"
      "shape res = shape (cell h (data layer))"
      "\<forall>idx. inside (shape (cell h (data layer))) idx \<longrightarrow>
         elems res idx = elems (cell h (data layer)) idx *
           prod_list
             (map (\<lambda>p. of_bool (footprint std r (shape (cell h (data layer))) p idx)) roi)"
    by blast
  have run: "apply_polygons std r (raster_shape h layer entry) (cell h (data layer)) roi = Inr res"
    unfolding rs by (rule res(1))
  show "\<exists>h' layer' masked'.
         mask_layer std r roi h layer entry = Inr (h', layer', masked') \<and>
         shape (cell h' (data masked')) = shape (cell h (data layer)) \<and>
         (\<forall>idx. inside (shape (cell h (data layer))) idx \<longrightarrow>
            elems (cell h' (data masked')) idx =
              elems (cell h (data layer)) idx *
              prod_list
                (map (\<lambda>p. of_bool (footprint std r (shape (cell h (data layer))) p idx)) roi))"
    unfolding mask_layer_result [OF run] using res(2,3) by simp
qed

text \<open>
  The theorem at the two squares in different planes, the masked layer being created:
  it holds 7 at \<open>(1, 2, 2)\<close> and 0 at \<open>(1, 5, 2)\<close>, where the source still holds 7, and
  it has the source's scale.
\<close>

theorem mask_layer_frame_witness:
  "masked_voxel (mask_layer exact_std crossing_polygon2mask [square_a, square_c] heap0 layer0 None)
     [1, 2, 2] = Inr 7 \<and>
   masked_voxel (mask_layer exact_std crossing_polygon2mask [square_a, square_c] heap0 layer0 None)
     [1, 5, 2] = Inr 0 \<and>
   source_voxel (mask_layer exact_std crossing_polygon2mask [square_a, square_c] heap0 layer0 None)
     [1, 5, 2] = Inr 7 \<and>
   masked_scale (mask_layer exact_std crossing_polygon2mask [square_a, square_c] heap0 layer0 None) =
     Inr (scale layer0)"
proof -
  note frame = mask_layer_frame [where std = exact_std and r = crossing_polygon2mask
      and roi = "[square_a, square_c]" and h = heap0 and layer = layer0 and entry = None]
  have c: "raster_shape heap0 layer0 None = shape (cell heap0 (data layer0))"
    by (rule raster_shape_None)
  have ok: "\<forall>p\<in>set [square_a, square_c].
      \<exists>m. polygon_mask exact_std crossing_polygon2mask (shape (cell heap0 (data layer0))) p = Inr m"
    unfolding heap0_source(2) by (rule example_roi_ok)
  from frame [THEN conjunct2, THEN mp, OF conjI [OF heap0_source(3) conjI [OF c ok]]]
  obtain h' layer' masked' where
    run: "mask_layer exact_std crossing_polygon2mask [square_a, square_c] heap0 layer0 None =
        Inr (h', layer', masked')"
    and vox: "\<And>idx. inside [2, 8, 8] idx \<Longrightarrow>
        elems (cell h' (data masked')) idx =
          elems volume7 idx *
          prod_list (map (\<lambda>p. of_bool (footprint exact_std crossing_polygon2mask [2, 8, 8] p idx))
            [square_a, square_c])"
    unfolding heap0_source(1) shape_volume7 by auto
  from frame [THEN conjunct1, rule_format, OF run] heap0_source(4)
  have src: "data layer' = data layer0" "cell h' (data layer0) = cell heap0 (data layer0)"
    and sc: "scale masked' = scale layer0"
    by simp_all
  have "elems (cell h' (data masked')) [1, 2, 2] = 7"
    using vox [of "[1, 2, 2]"] footprint_square_a_1 footprint_square_c_1
    by (simp add: inside_def) (simp add: volume7_def)
  moreover have "elems (cell h' (data masked')) [1, 5, 2] = 0"
    using vox [of "[1, 5, 2]"] footprint_square_a_out by (simp add: inside_def)
  moreover have "elems (cell h' (data layer')) [1, 5, 2] = 7"
    by (simp add: src heap0_source(1)) (simp add: volume7_def)
  ultimately show ?thesis
    unfolding run by (simp add: masked_voxel_def source_voxel_def masked_scale_def sc)
qed

text \<open>
  C9 as stated fails for a masked layer that was there already. The scale is set only
  where the layer is created, and the masks are rasterised for the shape of the masked
  layer's data: for a source of shape \<open>(1, 8, 8)\<close> and scale \<open>(1, 1/2, 1/2)\<close> and an
  adopted layer of shape \<open>(2, 8, 8)\<close> and scale \<open>(1, 1, 1)\<close>, the output has the shape
  \<open>(2, 8, 8)\<close> and the scale \<open>(1, 1, 1)\<close>.
\<close>

theorem adopted_layer_counterexample:
  "shape (cell heap2 (data layer0)) = [1, 8, 8] \<and> scale layer0 = [1, 1 / 2, 1 / 2] \<and>
   result_shape (mask_layer exact_std crossing_polygon2mask [square_c] heap2 layer0
      (Some adopted_unscaled)) = Inr [2, 8, 8] \<and>
   masked_scale (mask_layer exact_std crossing_polygon2mask [square_c] heap2 layer0
      (Some adopted_unscaled)) = Inr [1, 1, 1]"
proof -
  have rs: "raster_shape heap2 layer0 (Some adopted_unscaled) = [2, 8, 8]"
    by (simp add: raster_shape_def new_masked_def heap2_def adopted_unscaled_def volume7_def)
  have src: "cell heap2 (data layer0) = flat_volume" by (simp add: heap2_def layer0_def)
  from adopted_square_c obtain res where
    res: "apply_polygons exact_std crossing_polygon2mask [2, 8, 8] flat_volume [square_c] = Inr res"
      "shape res = [2, 8, 8]"
    by blast
  have run: "apply_polygons exact_std crossing_polygon2mask
      (raster_shape heap2 layer0 (Some adopted_unscaled)) (cell heap2 (data layer0)) [square_c] =
      Inr res"
    by (simp only: rs src res(1))
  have 1: "shape (cell heap2 (data layer0)) = [1, 8, 8]"
    by (simp add: src flat_volume_def)
  have 2: "scale layer0 = [1, 1 / 2, 1 / 2]" by (simp add: layer0_def)
  have 3: "result_shape (mask_layer exact_std crossing_polygon2mask [square_c] heap2 layer0
      (Some adopted_unscaled)) = Inr [2, 8, 8]"
    unfolding mask_layer_result [OF run] by (simp add: result_shape_def res(2))
  have 4: "masked_scale (mask_layer exact_std crossing_polygon2mask [square_c] heap2 layer0
      (Some adopted_unscaled)) = Inr [1, 1, 1]"
    unfolding mask_layer_result [OF run]
    by (simp add: masked_scale_def new_masked_def adopted_unscaled_def)
  from 1 2 3 4 show ?thesis by blast
qed

text \<open>
  C8, as the code has it. The masked data of every run is the result of the loop on the
  source's data, the polygons and the shape of the data of the masked layer the table
  holds (the shape the masks are rasterised for), and of nothing else. When the source is
  three-dimensional, its polygons all rasterise, and the table holds no masked layer or
  one whose data has the source's shape, the run stores the result of the loop for the
  source's own shape, and a second run on the state the first one left stores the same
  array again: each run starts from the source's data, so a second masking does not mask
  the first one's output.
\<close>

theorem mask_layer_repeatable:
  "masked_array (mask_layer std r roi h layer entry) =
     apply_polygons std r (raster_shape h layer entry) (cell h (data layer)) roi \<and>
   (length (shape (cell h (data layer))) = 3 \<and> data layer < lim h \<and>
    raster_shape h layer entry = shape (cell h (data layer)) \<and>
    (\<forall>p\<in>set roi. \<exists>m. polygon_mask std r (shape (cell h (data layer))) p = Inr m) \<longrightarrow>
      (\<exists>res h1 layer1 masked1 h2 masked2.
         apply_polygons std r (shape (cell h (data layer))) (cell h (data layer)) roi = Inr res \<and>
         mask_layer std r roi h layer entry = Inr (h1, layer1, masked1) \<and>
         cell h1 (data masked1) = res \<and>
         mask_layer std r roi h1 layer1 (Some masked1) = Inr (h2, layer1, masked2) \<and>
         cell h2 (data masked2) = res))"
proof (intro conjI impI)
  show "masked_array (mask_layer std r roi h layer entry) =
     apply_polygons std r (raster_shape h layer entry) (cell h (data layer)) roi"
    by (rule masked_array_eq)
next
  assume hyp: "length (shape (cell h (data layer))) = 3 \<and> data layer < lim h \<and>
    raster_shape h layer entry = shape (cell h (data layer)) \<and>
    (\<forall>p\<in>set roi. \<exists>m. polygon_mask std r (shape (cell h (data layer))) p = Inr m)"
  then have l: "length (shape (cell h (data layer))) = 3"
    and a: "data layer < lim h"
    and c: "raster_shape h layer entry = shape (cell h (data layer))"
    and ok: "\<forall>p\<in>set roi. \<exists>m. polygon_mask std r (shape (cell h (data layer))) p = Inr m"
    by blast+
  from apply_polygons_3d [OF l refl ok] obtain res where
    res: "apply_polygons std r (shape (cell h (data layer))) (cell h (data layer)) roi = Inr res"
      "shape res = shape (cell h (data layer))"
    by blast
  define h1 where "h1 = \<lparr>cell = (cell h)(lim h := res), lim = Suc (lim h)\<rparr>"
  define layer1 where "layer1 = layer\<lparr>visible := False\<rparr>"
  define masked1 where "masked1 = (new_masked layer entry)\<lparr>data := lim h, visible := True\<rparr>"
  have run: "apply_polygons std r (raster_shape h layer entry) (cell h (data layer)) roi = Inr res"
    unfolding c by (rule res(1))
  have first: "mask_layer std r roi h layer entry = Inr (h1, layer1, masked1)"
    unfolding h1_def layer1_def masked1_def by (rule mask_layer_result [OF run])
  have src: "cell h1 (data layer1) = cell h (data layer)"
    using a by (simp add: h1_def layer1_def)
  have rs: "raster_shape h1 layer1 (Some masked1) = shape (cell h (data layer))"
    by (simp add: raster_shape_def new_masked_def h1_def masked1_def res(2))
  have again: "apply_polygons std r (raster_shape h1 layer1 (Some masked1))
      (cell h1 (data layer1)) roi = Inr res"
    unfolding src rs by (rule res(1))
  have second: "mask_layer std r roi h1 layer1 (Some masked1) =
     Inr (\<lparr>cell = (cell h1)(lim h1 := res), lim = Suc (lim h1)\<rparr>, layer1,
          masked1\<lparr>data := lim h1\<rparr>)"
    unfolding mask_layer_result [OF again]
    by (simp add: layer1_def masked1_def new_masked_def)
  have "cell h1 (data masked1) = res" by (simp add: h1_def masked1_def)
  moreover have "cell \<lparr>cell = (cell h1)(lim h1 := res), lim = Suc (lim h1)\<rparr>
      (data (masked1\<lparr>data := lim h1\<rparr>)) = res"
    by simp
  ultimately show "\<exists>res h1 layer1 masked1 h2 masked2.
       apply_polygons std r (shape (cell h (data layer))) (cell h (data layer)) roi = Inr res \<and>
       mask_layer std r roi h layer entry = Inr (h1, layer1, masked1) \<and>
       cell h1 (data masked1) = res \<and>
       mask_layer std r roi h1 layer1 (Some masked1) = Inr (h2, layer1, masked2) \<and>
       cell h2 (data masked2) = res"
    using res(1) first second by blast
qed

text \<open>
  The theorem at the two squares: both runs leave 7 at the voxel \<open>(1, 2, 2)\<close> of the
  masked layer.
\<close>

theorem mask_layer_repeatable_witness:
  "\<exists>h1 layer1 masked1.
     mask_layer exact_std crossing_polygon2mask [square_a, square_c] heap0 layer0 None =
       Inr (h1, layer1, masked1) \<and>
     elems (cell h1 (data masked1)) [1, 2, 2] = 7 \<and>
     masked_voxel (mask_layer exact_std crossing_polygon2mask [square_a, square_c] h1 layer1
       (Some masked1)) [1, 2, 2] = Inr 7"
proof -
  have c: "raster_shape heap0 layer0 None = shape (cell heap0 (data layer0))"
    by (rule raster_shape_None)
  have ok: "\<forall>p\<in>set [square_a, square_c].
      \<exists>m. polygon_mask exact_std crossing_polygon2mask (shape (cell heap0 (data layer0))) p = Inr m"
    unfolding heap0_source(2) by (rule example_roi_ok)
  from mask_layer_repeatable [where std = exact_std and r = crossing_polygon2mask
      and roi = "[square_a, square_c]" and h = heap0 and layer = layer0 and entry = None,
      THEN conjunct2, THEN mp,
      OF conjI [OF heap0_source(3) conjI [OF heap0_source(4) conjI [OF c ok]]]]
  obtain res h1 layer1 masked1 h2 masked2
    where res: "apply_polygons exact_std crossing_polygon2mask [2, 8, 8] volume7
        [square_a, square_c] = Inr res"
    and first: "mask_layer exact_std crossing_polygon2mask [square_a, square_c] heap0 layer0 None =
       Inr (h1, layer1, masked1)" "cell h1 (data masked1) = res"
    and second: "mask_layer exact_std crossing_polygon2mask [square_a, square_c] h1 layer1
       (Some masked1) = Inr (h2, layer1, masked2)" "cell h2 (data masked2) = res"
    unfolding heap0_source(1) shape_volume7 by blast
  from example_result res have v: "elems res [1, 2, 2] = 7" by auto
  have "masked_voxel (mask_layer exact_std crossing_polygon2mask [square_a, square_c] h1 layer1
       (Some masked1)) [1, 2, 2] = Inr 7"
    unfolding second(1) using v by (simp add: masked_voxel_def second(2))
  with first v show ?thesis by blast
qed

text \<open>
  C8 as stated fails: the output depends on the masked layer the table holds. On the same
  source data and the same polygon, a run that creates the masked layer leaves 7 at the
  voxel \<open>(1, 2, 2)\<close>, and a run that finds an adopted masked layer whose data has the
  shape \<open>(2, 8, 1)\<close> rasterises the mask for that shape and leaves 0 there.
\<close>

theorem adopted_shape_counterexample:
  "cell heap1 (data layer0) = volume7 \<and>
   masked_voxel (mask_layer exact_std crossing_polygon2mask [square_a] heap1 layer0 None)
     [1, 2, 2] = Inr 7 \<and>
   masked_voxel (mask_layer exact_std crossing_polygon2mask [square_a] heap1 layer0
     (Some adopted_thin)) [1, 2, 2] = Inr 0"
proof -
  have src: "cell heap1 (data layer0) = volume7" by (simp add: heap1_def layer0_def)
  have rs0: "raster_shape heap1 layer0 None = [2, 8, 8]"
    by (simp add: raster_shape_None src shape_volume7)
  have rs1: "raster_shape heap1 layer0 (Some adopted_thin) = [2, 8, 1]"
    by (simp add: raster_shape_def new_masked_def heap1_def adopted_thin_def thin_volume_def)
  from fresh_square_a obtain res0 where
    res0: "apply_polygons exact_std crossing_polygon2mask [2, 8, 8] volume7 [square_a] = Inr res0"
      "elems res0 [1, 2, 2] = 7"
    by blast
  from thin_square_a obtain res1 where
    res1: "apply_polygons exact_std crossing_polygon2mask [2, 8, 1] volume7 [square_a] = Inr res1"
      "elems res1 [1, 2, 2] = 0"
    by blast
  have a0: "apply_polygons exact_std crossing_polygon2mask (raster_shape heap1 layer0 None)
      (cell heap1 (data layer0)) [square_a] = Inr res0"
    by (simp only: rs0 src res0(1))
  have a1: "apply_polygons exact_std crossing_polygon2mask
      (raster_shape heap1 layer0 (Some adopted_thin)) (cell heap1 (data layer0)) [square_a] =
      Inr res1"
    by (simp only: rs1 src res1(1))
  have "masked_voxel (mask_layer exact_std crossing_polygon2mask [square_a] heap1 layer0 None)
     [1, 2, 2] = Inr 7"
    unfolding mask_layer_result [OF a0] using res0(2) by (simp add: masked_voxel_def)
  moreover have "masked_voxel (mask_layer exact_std crossing_polygon2mask [square_a] heap1 layer0
     (Some adopted_thin)) [1, 2, 2] = Inr 0"
    unfolding mask_layer_result [OF a1] using res1(2) by (simp add: masked_voxel_def)
  ultimately show ?thesis using src by simp
qed

section \<open>Properties of the ray maximiser\<close>



text \<open>
  C5. The ray maximiser returns one of the 100 samples: a sample at which the intensity
  the sampler interpolates in the volume is the greatest of all the samples', and the
  first such along the ray, every earlier sample having a strictly smaller intensity.
\<close>

theorem ray_argmax_first_maximum:
  "\<exists>k<100. ray_argmax map_coordinates image_data near far = Inr (linspace near far 100 ! k) \<and>
     (\<forall>j<100. map_coordinates image_data ''constant'' 0 (linspace near far 100 ! j)
        \<le> map_coordinates image_data ''constant'' 0 (linspace near far 100 ! k)) \<and>
     (\<forall>j<k. map_coordinates image_data ''constant'' 0 (linspace near far 100 ! j)
        < map_coordinates image_data ''constant'' 0 (linspace near far 100 ! k))"
proof -
  from ray_argmax_result [of map_coordinates image_data near far] obtain k where
    k: "k < 100"
    and r: "ray_argmax map_coordinates image_data near far = Inr (linspace near far 100 ! k)"
    and mx: "\<forall>j<100. intensities map_coordinates image_data (linspace near far 100) ! j
        \<le> intensities map_coordinates image_data (linspace near far 100) ! k"
    and fst: "\<forall>j<k. intensities map_coordinates image_data (linspace near far 100) ! j
        < intensities map_coordinates image_data (linspace near far 100) ! k"
    by blast
  from mx k have "\<forall>j<100. map_coordinates image_data ''constant'' 0 (linspace near far 100 ! j)
        \<le> map_coordinates image_data ''constant'' 0 (linspace near far 100 ! k)"
    by (simp add: intensities_nth)
  moreover from fst k
  have "\<forall>j<k. map_coordinates image_data ''constant'' 0 (linspace near far 100 ! j)
        < map_coordinates image_data ''constant'' 0 (linspace near far 100 ! k)"
    by (simp add: intensities_nth)
  ultimately show ?thesis using k r by blast
qed

text \<open>
  The theorem in the volume with one bright voxel, on the ray from the origin to that
  voxel: the samples from the 92nd on are nearest to the bright voxel, and the 92nd is
  returned.
\<close>

theorem ray_argmax_first_maximum_witness:
  "ray_argmax nearest_sampler spot_volume (0, 0, 0) (1, 7, 7) = Inr (92 / 99, 644 / 99, 644 / 99)"
proof -
  from ray_argmax_first_maximum [of nearest_sampler spot_volume "(0, 0, 0)" "(1, 7, 7)"]
  obtain k where k: "k < 100"
    and r: "ray_argmax nearest_sampler spot_volume (0, 0, 0) (1, 7, 7) =
        Inr (linspace (0, 0, 0) (1, 7, 7) 100 ! k)"
    and mx: "\<forall>j<100. nearest_sampler spot_volume ''constant'' 0 (linspace (0, 0, 0) (1, 7, 7) 100 ! j)
        \<le> nearest_sampler spot_volume ''constant'' 0 (linspace (0, 0, 0) (1, 7, 7) 100 ! k)"
    and fst: "\<forall>j<k. nearest_sampler spot_volume ''constant'' 0 (linspace (0, 0, 0) (1, 7, 7) 100 ! j)
        < nearest_sampler spot_volume ''constant'' 0 (linspace (0, 0, 0) (1, 7, 7) 100 ! k)"
    by blast
  have "92 \<le> k"
  proof (rule ccontr)
    assume "\<not> 92 \<le> k"
    with mx [rule_format, of 92] k show False by (simp add: spot_sample)
  qed
  moreover have "k \<le> 92"
  proof (rule ccontr)
    assume "\<not> k \<le> 92"
    with fst [rule_format, of 92] k show False by (simp add: spot_sample)
  qed
  ultimately have "k = 92" by simp
  with r show ?thesis
    by (simp add: linspace_nth vadd_def vsub_def vscale_def)
qed



text \<open>
  C7, as the code has it. When the near point or the far point is missing, the click
  handler returns normally and leaves the points layer and the event as they were: no
  sample is taken, no point is appended, the event is not marked handled, and nothing is
  raised or reported.
\<close>

theorem missing_ray_returns_silently:
  assumes "near_point = None \<or> far_point = None"
  shows "mouse_click map_coordinates ndisplay (Some image_data) (near_point, far_point) layer ev =
     Inr (layer, ev)"
  using assms by (auto simp: mouse_click_def split: option.splits)

text \<open>The theorem at a click whose near point is missing.\<close>

theorem missing_ray_returns_silently_witness:
  "mouse_click nearest_sampler 3 (Some volume7) (None, Some (1, 1, 1)) add_layer event0 =
     Inr (add_layer, event0)"
proof -
  have "(None :: point3 option) = None \<or> Some (1::real, 1::real, 1::real) = None" by simp
  from missing_ray_returns_silently [OF this] show ?thesis .
qed

text \<open>
  C7 as stated fails: with the far point missing, in add mode and three dimensions, the
  handler returns normally; it does not raise an error named InvalidRay.
\<close>

theorem invalid_ray_counterexample:
  "mode add_layer = ''add'' \<and>
   mouse_click nearest_sampler 3 (Some volume7) (Some (0, 0, 0), None) add_layer event0 =
     Inr (add_layer, event0) \<and>
   mouse_click nearest_sampler 3 (Some volume7) (Some (0, 0, 0), None) add_layer event0 \<noteq>
     Inl (Raise ''InvalidRay'')"
  by (simp add: mouse_click_def add_layer_def)

end
